theory Spec2Isabelle
  imports Complex_Main "HOL-Library.Sublist"
begin

section \<open>JavaScript numbers\<close>

text \<open>
  A JavaScript \<open>number\<close> is an IEEE 754 double: a finite value, one of the two
  infinities, or NaN. \<open>Fin r\<close> is the finite double whose exact value is the
  rational \<open>r\<close> (the two zeros are not told apart). \<open>Math.min\<close>, \<open>Math.max\<close>
  and the comparisons are exact on doubles; a decimal literal and a sum denote the
  double nearest to the exact value, which \<open>toDouble\<close> computes.
\<close>

datatype jsnum = NaN | NegInf | Fin rat | PosInf

fun Number_isFinite :: "jsnum \<Rightarrow> bool" where
  "Number_isFinite (Fin r) = True"
| "Number_isFinite NaN = False"
| "Number_isFinite NegInf = False"
| "Number_isFinite PosInf = False"

text \<open>The relational operator \<open><\<close>: false as soon as one side is NaN.\<close>

fun num_less :: "jsnum \<Rightarrow> jsnum \<Rightarrow> bool" where
  "num_less NaN y = False"
| "num_less x NaN = False"
| "num_less PosInf y = False"
| "num_less x NegInf = False"
| "num_less NegInf y = True"
| "num_less x PosInf = True"
| "num_less (Fin a) (Fin b) = (a < b)"

definition Math_max :: "jsnum \<Rightarrow> jsnum \<Rightarrow> jsnum" where
  "Math_max a b = (if a = NaN \<or> b = NaN then NaN else if num_less a b then b else a)"

definition Math_min :: "jsnum \<Rightarrow> jsnum \<Rightarrow> jsnum" where
  "Math_min a b = (if a = NaN \<or> b = NaN then NaN else if num_less b a then b else a)"

text \<open>
  Rounding to the nearest double, ties to even. A double has 53 significant bits, so
  in the binade \<open>[2^e, 2^(e+1))\<close> the doubles are the multiples of \<open>2^(e-52)\<close>;
  below \<open>2^(-1022)\<close> the spacing stays \<open>2^(-1074)\<close>, and a magnitude that rounds
  to \<open>2^1024\<close> or more is an infinity.
\<close>

fun bitLength :: "nat \<Rightarrow> nat" where
  "bitLength n = (if n = 0 then 0 else Suc (bitLength (n div 2)))"

declare bitLength.simps [simp del]

definition pow2 :: "int \<Rightarrow> rat" where
  "pow2 k = (if 0 \<le> k then 2 ^ nat k else 1 / 2 ^ nat (- k))"

text \<open>For \<open>a > 0\<close>, the exponent \<open>e\<close> with \<open>2^e \<le> a < 2^(e+1)\<close>.\<close>

definition binade :: "rat \<Rightarrow> int" where
  "binade a =
     (if 1 \<le> a then int (bitLength (nat \<lfloor>a\<rfloor>)) - 1
      else - int (bitLength (nat (\<lceil>1 / a\<rceil> - 1))))"

definition roundEven :: "rat \<Rightarrow> int" where
  "roundEven q =
     (let f = \<lfloor>q\<rfloor>; r = q - of_int f
      in if r < 1 / 2 then f else if 1 / 2 < r then f + 1 else if even f then f else f + 1)"

definition toDouble :: "rat \<Rightarrow> jsnum" where
  "toDouble x =
     (if x = 0 then Fin 0
      else (let a = \<bar>x\<bar>;
                e = max (binade a) (- 1022);
                ulp = pow2 (e - 52);
                m = roundEven (a / ulp)
            in if 1023 < e \<or> (e = 1023 \<and> m = 2 ^ 53)
               then (if x < 0 then NegInf else PosInf)
               else Fin (if x < 0 then - (of_int m * ulp) else of_int m * ulp)))"

text \<open>The operator \<open>+\<close> on numbers: the exact sum of two finite doubles, rounded.\<close>

fun num_add :: "jsnum \<Rightarrow> jsnum \<Rightarrow> jsnum" where
  "num_add NaN y = NaN"
| "num_add x NaN = NaN"
| "num_add PosInf NegInf = NaN"
| "num_add NegInf PosInf = NaN"
| "num_add PosInf y = PosInf"
| "num_add x PosInf = PosInf"
| "num_add NegInf y = NegInf"
| "num_add x NegInf = NegInf"
| "num_add (Fin a) (Fin b) = toDouble (a + b)"

subsection \<open>Numbers as text\<close>

definition digit_char :: "nat \<Rightarrow> char" where
  "digit_char d = char_of (48 + d)"

fun showNat :: "nat \<Rightarrow> string" where
  "showNat n = (if n < 10 then [digit_char n] else showNat (n div 10) @ [digit_char (n mod 10)])"

declare showNat.simps [simp del]

text \<open>
  \<open>Number::toString\<close>, as a template literal applies it. Integers below \<open>10^21\<close> in
  magnitude print as their decimal digits. Every other finite value prints through
  the shortest round-trip digits of its double, which is left to the parameter
  \<open>fmt\<close>.
\<close>

definition numberToString :: "(rat \<Rightarrow> string) \<Rightarrow> jsnum \<Rightarrow> string" where
  "numberToString fmt x =
     (case x of
        NaN \<Rightarrow> ''NaN''
      | PosInf \<Rightarrow> ''Infinity''
      | NegInf \<Rightarrow> ''-Infinity''
      | Fin r \<Rightarrow>
          if of_int \<lfloor>r\<rfloor> = r \<and> \<bar>r\<bar> < 10 ^ 21
          then (if r < 0 then ''-'' else []) @ showNat (nat \<bar>\<lfloor>r\<rfloor>\<bar>)
          else fmt r)"

text \<open>
  \<open>x.toFixed(0)\<close>: a non-finite value prints as \<open>toString\<close> does; otherwise the sign,
  then the integer nearest to the magnitude (the larger one on a tie), or the
  \<open>toString\<close> of the magnitude from \<open>10^21\<close> on.
\<close>

definition toFixed0 :: "(rat \<Rightarrow> string) \<Rightarrow> jsnum \<Rightarrow> string" where
  "toFixed0 fmt x =
     (case x of
        Fin r \<Rightarrow>
          (if r < 0 then ''-'' else []) @
          (if \<bar>r\<bar> \<ge> 10 ^ 21 then numberToString fmt (Fin \<bar>r\<bar>)
           else showNat (nat \<lfloor>\<bar>r\<bar> + 1 / 2\<rfloor>))
      | _ \<Rightarrow> numberToString fmt x)"

section \<open>The brief form (client)\<close>

datatype TonePreset = Playful_Silly | Curious_Explorer | Superhero_Mentor | Calm_Storyteller

datatype CadencePreset = Daily | Three_videos_week | Weekly

text \<open>The two union types are unions of string literals; these are the strings.\<close>

fun toneString :: "TonePreset \<Rightarrow> string" where
  "toneString Playful_Silly = ''Playful & Silly''"
| "toneString Curious_Explorer = ''Curious Explorer''"
| "toneString Superhero_Mentor = ''Superhero Mentor''"
| "toneString Calm_Storyteller = ''Calm Storyteller''"

fun cadenceString :: "CadencePreset \<Rightarrow> string" where
  "cadenceString Daily = ''Daily''"
| "cadenceString Three_videos_week = ''3 videos / week''"
| "cadenceString Weekly = ''Weekly''"

record AgentFormState =
  channelName :: string
  topic :: string
  targetAge :: string
  learningOutcome :: string
  tone :: TonePreset
  heroCharacter :: string
  runtimeSeconds :: jsnum
  callToAction :: string
  cadence :: CadencePreset
  extraNotes :: string
  creativity :: jsnum

record AgentScene =
  beat :: string
  timing :: string
  narration :: string
  visuals :: string
  soundDesign :: string

record AgentMetadata =
  description :: string
  hashtags :: "string list"
  keywordList :: "string list"
  publishingTip :: string

record AgentResponse =
  headline :: string
  hook :: string
  storyline :: "AgentScene list"
  script :: string
  educationalMoments :: "string list"
  planCallToAction :: string
  safetyChecklist :: "string list"
  metadata :: AgentMetadata
  thumbnailConcepts :: "string list"
  repurposingIdeas :: "string list"

definition defaultForm :: AgentFormState where
  "defaultForm =
     \<lparr> channelName = [],
       topic = [],
       targetAge = ''Ages 5-8'',
       learningOutcome = [],
       tone = Playful_Silly,
       heroCharacter = [],
       runtimeSeconds = Fin 45,
       callToAction = ''Subscribe for more adventures!'',
       cadence = Three_videos_week,
       extraNotes = [],
       creativity = toDouble (6 / 10) \<rparr>"

definition formatSeconds :: "(rat \<Rightarrow> string) \<Rightarrow> jsnum \<Rightarrow> string" where
  "formatSeconds fmt seconds =
     (let safe = Math_max (Fin 15) (Math_min (Fin 90) seconds)
      in toFixed0 fmt safe @ ''s'')"

text \<open>The four \<open>useState\<close> cells of the \<open>Home\<close> component.\<close>

record HomeState =
  formState :: AgentFormState
  result :: "AgentResponse option"
  isLoading :: bool
  errorMessage :: "string option"

definition initialHome :: HomeState where
  "initialHome =
     \<lparr> formState = defaultForm, result = None, isLoading = False, errorMessage = None \<rparr>"

text \<open>\<open>result?.storyline.slice(0, 3) ?? []\<close>\<close>

definition scenePreview :: "HomeState \<Rightarrow> AgentScene list" where
  "scenePreview s = (case result s of None \<Rightarrow> [] | Some r \<Rightarrow> take 3 (storyline r))"

text \<open>
  The quick-preview panel: the placeholder paragraph while there is no result,
  otherwise the card with the headline, the hook and one list item per previewed
  scene holding its timing, beat and narration.
\<close>

datatype previewPanel =
    PreviewEmpty
  | PreviewCard string string "(string \<times> string \<times> string) list"

definition quickPreview :: "HomeState \<Rightarrow> previewPanel" where
  "quickPreview s =
     (case result s of
        None \<Rightarrow> PreviewEmpty
      | Some r \<Rightarrow>
          PreviewCard (headline r) (hook r)
            (map (\<lambda>scene. (timing scene, beat scene, narration scene)) (scenePreview s)))"

definition handleReset :: "HomeState \<Rightarrow> HomeState" where
  "handleReset s = s\<lparr> formState := defaultForm, result := None, errorMessage := None \<rparr>"

text \<open>
  A value caught by the \<open>catch\<close> clause of a submission: an \<open>Error\<close> with its
  message, or anything else.
\<close>

datatype thrown = ErrorObject string | OtherValue

text \<open>
  What the \<open>fetch\<close> of a submission can come to: it rejects; the response is not
  \<open>ok\<close>, with the \<open>error\<close> field of its body if the body is JSON and has one; the
  response is \<open>ok\<close> and reading its body as JSON rejects; the response is \<open>ok\<close>
  and carries a plan.
\<close>

datatype submitResult =
    FetchRejected thrown
  | NotOkReply "string option"
  | OkUnreadable thrown
  | OkReply AgentResponse

definition caughtMessage :: "thrown \<Rightarrow> string" where
  "caughtMessage e =
     (case e of
        ErrorObject message \<Rightarrow> message
      | OtherValue \<Rightarrow> ''We hit a snag creating the short. Give it another go!'')"

text \<open>The state while the request is in flight, and the state once it has settled.\<close>

definition submitPending :: "HomeState \<Rightarrow> HomeState" where
  "submitPending s = s\<lparr> isLoading := True, errorMessage := None, result := None \<rparr>"

definition handleSubmit :: "HomeState \<Rightarrow> submitResult \<Rightarrow> HomeState" where
  "handleSubmit s r =
     (let s1 = submitPending s;
          s2 = (case r of
                  FetchRejected e \<Rightarrow> s1\<lparr> errorMessage := Some (caughtMessage e) \<rparr>
                | NotOkReply e \<Rightarrow>
                    s1\<lparr> errorMessage :=
                          Some (caughtMessage
                                  (ErrorObject
                                     (case e of
                                        None \<Rightarrow> ''Something went wrong. Please try again.''
                                      | Some message \<Rightarrow> message))) \<rparr>
                | OkUnreadable e \<Rightarrow> s1\<lparr> errorMessage := Some (caughtMessage e) \<rparr>
                | OkReply payload \<Rightarrow> s1\<lparr> result := Some payload \<rparr>)
      in s2\<lparr> isLoading := False \<rparr>)"

section \<open>The generation endpoint (server)\<close>

text \<open>
  The request body as \<open>JSON.stringify(formState)\<close> sends it and the endpoint's
  \<open>AgentRequest\<close> interface reads it: tone and cadence arrive as plain strings.
\<close>

record AgentRequest =
  channelName :: string
  topic :: string
  targetAge :: string
  learningOutcome :: string
  tone :: string
  heroCharacter :: string
  runtimeSeconds :: jsnum
  callToAction :: string
  cadence :: string
  extraNotes :: string
  creativity :: jsnum

text \<open>\<open>Array.prototype.join\<close>\<close>

fun join :: "string \<Rightarrow> string list \<Rightarrow> string" where
  "join sep [] = []"
| "join sep [x] = x"
| "join sep (x # y # ys) = x @ sep @ join sep (y # ys)"

text \<open>\<open>a || b\<close> on strings: the empty string is the only falsy one.\<close>

definition or_else :: "string \<Rightarrow> string \<Rightarrow> string" where
  "or_else a b = (if a = [] then b else a)"

definition systemPrompt :: string where
  \<open>systemPrompt = join ''\<newline>''
    [''You are Kid Shorts Studio, an elite creative director for YouTube Kids shorts.'',
     [],
     ''Guidelines:'',
     ''- Content must be COPPA friendly, inclusive, kind, and safe for children.'',
     ''- Match the requested tone while staying upbeat, empathetic, and imaginative.'',
     ''- Deliver actionable production notes for a 9:16 short from hook to CTA.'',
     ''- Include quick educational beats that reinforce positive learning.'',
     ''- Provide captions, visuals, sound design suggestions, and editing beats appropriate for high retention.'',
     ''- Output MUST be valid JSON that matches the schema below. Never include markdown fences or commentary.'',
     [],
     ''Schema:'',
     ''{'',
     ''  "headline": string,'',
     ''  "hook": string,'',
     ''  "storyline": ['',
     ''    {'',
     ''      "beat": string,'',
     ''      "timing": string,'',
     ''      "narration": string,'',
     ''      "visuals": string,'',
     ''      "soundDesign": string'',
     ''    }'',
     ''  ],'',
     ''  "script": string,'',
     ''  "educationalMoments": string[],'',
     ''  "callToAction": string,'',
     ''  "safetyChecklist": string[],'',
     ''  "metadata": {'',
     ''    "description": string,'',
     ''    "hashtags": string[],'',
     ''    "keywords": string[],'',
     ''    "publishingTip": string'',
     ''  },'',
     ''  "thumbnailConcepts": string[],'',
     ''  "repurposingIdeas": string[]'',
     ''}'',
     [],
     ''Ensure narrator lines are fun to perform. Offer fresh thumbnail ideas with clear focal points and expressive characters.'']\<close>

text \<open>The array of lines that \<open>buildUserPrompt\<close> joins.\<close>

definition promptLines :: "(rat \<Rightarrow> string) \<Rightarrow> AgentRequest \<Rightarrow> string list" where
  "promptLines fmt payload =
     (let runtimeFocus = Math_max (Fin 15) (Math_min (Fin 90) (runtimeSeconds payload))
      in [''Channel name: '' @ or_else (channelName payload) ''Not provided'',
          ''Short concept: '' @ topic payload,
          ''Target age group: '' @ targetAge payload,
          ''Desired learning outcome: '' @
            or_else (learningOutcome payload) ''Create an age-appropriate takeaway.'',
          ''Tone: '' @ tone payload,
          ''Hero or host: '' @
            or_else (heroCharacter payload) ''Create an original, friendly character.'',
          ''Ideal runtime: '' @ numberToString fmt runtimeFocus @ '' seconds'',
          ''Publishing cadence: '' @ cadence payload,
          ''Call to action requested: '' @ callToAction payload,
          ''Extra notes / constraints: '' @
            or_else (extraNotes payload) ''Stay joyful, ethical, and child-safe.''])"

definition buildUserPrompt :: "(rat \<Rightarrow> string) \<Rightarrow> AgentRequest \<Rightarrow> string" where
  "buildUserPrompt fmt payload = join ''\<newline>'' (promptLines fmt payload)"

subsection \<open>Fence stripping\<close>

text \<open>
  \<open>raw.replace(/```json|```/g, "")\<close>: one scan from the left; at each position the
  longer alternative is tried first, a match is dropped and the scan resumes behind it.
\<close>

fun stripFences :: "string \<Rightarrow> string" where
  "stripFences [] = []"
| "stripFences (c # cs) =
     (if prefix ''```json'' (c # cs) then stripFences (drop 7 (c # cs))
      else if prefix ''```'' (c # cs) then stripFences (drop 3 (c # cs))
      else c # stripFences cs)"

text \<open>
  \<open>String.prototype.trim\<close> removes white space and line terminators from both ends:
  among the code units below 256 these are TAB, LF, VT, FF, CR, SP and NBSP.
\<close>

definition is_js_space :: "char \<Rightarrow> bool" where
  "is_js_space c = (of_char c \<in> {9, 10, 11, 12, 13, 32, 160 :: nat})"

definition trim :: "string \<Rightarrow> string" where
  "trim s = rev (dropWhile is_js_space (rev (dropWhile is_js_space s)))"

text \<open>Whether three backticks in a row occur somewhere in a text.\<close>

fun hasFence :: "string \<Rightarrow> bool" where
  "hasFence [] = False"
| "hasFence (c # cs) = (if prefix ''```'' (c # cs) then True else hasFence cs)"

subsection \<open>\<open>JSON.parse\<close>\<close>

text \<open>
  The value a JSON text denotes. A number keeps its source text (its double is a
  function of that text), a string holds its decoded UTF-16 code units, an object
  its members in source order.
\<close>

datatype json =
    JNull
  | JBool bool
  | JNumber string
  | JString "nat list"
  | JArray "json list"
  | JObject "(nat list \<times> json) list"

datatype token = TLBrace | TRBrace | TLBracket | TRBracket | TComma | TColon | TValue json

definition is_json_ws :: "char \<Rightarrow> bool" where
  "is_json_ws c = (of_char c \<in> {9, 10, 13, 32 :: nat})"

definition is_digit :: "char \<Rightarrow> bool" where
  "is_digit c = (48 \<le> (of_char c :: nat) \<and> (of_char c :: nat) \<le> 57)"

definition is_numchar :: "char \<Rightarrow> bool" where
  "is_numchar c = (is_digit c \<or> c \<in> set ''+-.eE'')"

definition is_letter :: "char \<Rightarrow> bool" where
  "is_letter c = (97 \<le> (of_char c :: nat) \<and> (of_char c :: nat) \<le> 122)"

text \<open>
  The number grammar: an optional minus, then \<open>0\<close> or a digit string without a
  leading zero, then an optional fraction and an optional exponent, both with at least
  one digit.
\<close>

definition valid_exp :: "string \<Rightarrow> bool" where
  "valid_exp r =
     (case r of
        [] \<Rightarrow> True
      | c # cs \<Rightarrow>
          (c = CHR ''e'' \<or> c = CHR ''E'') \<and>
          (let ds = (case cs of
                       [] \<Rightarrow> []
                     | d # ds' \<Rightarrow> if d = CHR ''+'' \<or> d = CHR ''-'' then ds' else cs)
           in (case ds of [] \<Rightarrow> False | _ # _ \<Rightarrow> list_all is_digit ds)))"

definition valid_frac :: "string \<Rightarrow> bool" where
  "valid_frac r =
     (case r of
        [] \<Rightarrow> True
      | c # cs \<Rightarrow>
          if c = CHR ''.''
          then (case takeWhile is_digit cs of
                  [] \<Rightarrow> False
                | _ # _ \<Rightarrow> valid_exp (dropWhile is_digit cs))
          else valid_exp r)"

definition valid_number :: "string \<Rightarrow> bool" where
  "valid_number s =
     (let s1 = (case s of [] \<Rightarrow> [] | c # cs \<Rightarrow> if c = CHR ''-'' then cs else s)
      in (case takeWhile is_digit s1 of
            [] \<Rightarrow> False
          | d # ds \<Rightarrow>
              (if d = CHR ''0'' then ds = [] else True) \<and> valid_frac (dropWhile is_digit s1)))"

text \<open>
  The scanner reads one code unit at a time. Between tokens it skips JSON white space;
  inside a string it decodes escapes; a run of number characters or of lower-case
  letters is collected whole and must then be a number of the grammar, or one of
  \<open>true\<close>, \<open>false\<close>, \<open>null\<close> (two such tokens that touch are never part of a JSON
  text, so collecting the run accepts the same texts). Tokens are collected in
  reverse.
\<close>

datatype lexmode =
    Between
  | InString "nat list"
  | InEscape "nat list"
  | InUnicode "nat list" "nat list"
  | InNumber string
  | InLiteral string
  | LexFail

definition unescape :: "char \<Rightarrow> nat option" where
  \<open>unescape c =
     (if c = CHR 0x22 then Some 34
      else if c = CHR 0x5C then Some 92
      else if c = CHR ''/'' then Some 47
      else if c = CHR ''b'' then Some 8
      else if c = CHR ''f'' then Some 12
      else if c = CHR ''n'' then Some 10
      else if c = CHR ''r'' then Some 13
      else if c = CHR ''t'' then Some 9
      else None)\<close>

definition hex_value :: "char \<Rightarrow> nat option" where
  "hex_value c =
     (let n = (of_char c :: nat)
      in if 48 \<le> n \<and> n \<le> 57 then Some (n - 48)
         else if 65 \<le> n \<and> n \<le> 70 then Some (n - 55)
         else if 97 \<le> n \<and> n \<le> 102 then Some (n - 87)
         else None)"

definition hex_number :: "nat list \<Rightarrow> nat" where
  "hex_number hs = foldl (\<lambda>a h. 16 * a + h) 0 hs"

definition between_step :: "token list \<Rightarrow> char \<Rightarrow> lexmode \<times> token list" where
  \<open>between_step toks c =
     (if is_json_ws c then (Between, toks)
      else if c = CHR ''{'' then (Between, TLBrace # toks)
      else if c = CHR ''}'' then (Between, TRBrace # toks)
      else if c = CHR ''['' then (Between, TLBracket # toks)
      else if c = CHR '']'' then (Between, TRBracket # toks)
      else if c = CHR '','' then (Between, TComma # toks)
      else if c = CHR '':'' then (Between, TColon # toks)
      else if c = CHR 0x22 then (InString [], toks)
      else if c = CHR ''-'' \<or> is_digit c then (InNumber [c], toks)
      else if is_letter c then (InLiteral [c], toks)
      else (LexFail, toks))\<close>

definition close_number :: "string \<Rightarrow> token list \<Rightarrow> token list option" where
  "close_number acc toks =
     (if valid_number acc then Some (TValue (JNumber acc) # toks) else None)"

definition close_literal :: "string \<Rightarrow> token list \<Rightarrow> token list option" where
  "close_literal acc toks =
     (if acc = ''true'' then Some (TValue (JBool True) # toks)
      else if acc = ''false'' then Some (TValue (JBool False) # toks)
      else if acc = ''null'' then Some (TValue JNull # toks)
      else None)"

fun lex_step :: "lexmode \<times> token list \<Rightarrow> char \<Rightarrow> lexmode \<times> token list" where
  "lex_step (Between, toks) c = between_step toks c"
| \<open>lex_step (InString acc, toks) c =
     (if c = CHR 0x22 then (Between, TValue (JString acc) # toks)
      else if c = CHR 0x5C then (InEscape acc, toks)
      else if (of_char c :: nat) < 32 then (LexFail, toks)
      else (InString (acc @ [of_char c]), toks))\<close>
| "lex_step (InEscape acc, toks) c =
     (case unescape c of
        Some u \<Rightarrow> (InString (acc @ [u]), toks)
      | None \<Rightarrow> if c = CHR ''u'' then (InUnicode acc [], toks) else (LexFail, toks))"
| "lex_step (InUnicode acc hs, toks) c =
     (case hex_value c of
        None \<Rightarrow> (LexFail, toks)
      | Some h \<Rightarrow>
          if length hs = 3 then (InString (acc @ [hex_number (hs @ [h])]), toks)
          else (InUnicode acc (hs @ [h]), toks))"
| "lex_step (InNumber acc, toks) c =
     (if is_numchar c then (InNumber (acc @ [c]), toks)
      else (case close_number acc toks of
              None \<Rightarrow> (LexFail, toks)
            | Some toks' \<Rightarrow> between_step toks' c))"
| "lex_step (InLiteral acc, toks) c =
     (if is_letter c then (InLiteral (acc @ [c]), toks)
      else (case close_literal acc toks of
              None \<Rightarrow> (LexFail, toks)
            | Some toks' \<Rightarrow> between_step toks' c))"
| "lex_step (LexFail, toks) c = (LexFail, toks)"

fun lex_finish :: "lexmode \<times> token list \<Rightarrow> token list option" where
  "lex_finish (Between, toks) = Some (rev toks)"
| "lex_finish (InNumber acc, toks) = map_option rev (close_number acc toks)"
| "lex_finish (InLiteral acc, toks) = map_option rev (close_literal acc toks)"
| "lex_finish (InString acc, toks) = None"
| "lex_finish (InEscape acc, toks) = None"
| "lex_finish (InUnicode acc hs, toks) = None"
| "lex_finish (LexFail, toks) = None"

definition lex :: "string \<Rightarrow> token list option" where
  "lex s = lex_finish (foldl lex_step (Between, []) s)"

text \<open>
  The token grammar, as a pushdown automaton: the stack holds the arrays and objects
  that are still open, the mode says what may come next.
\<close>

datatype frame =
    ArrayFrame "json list"
  | ObjectFrame "(nat list \<times> json) list"
  | MemberFrame "(nat list \<times> json) list" "nat list"

datatype pmode =
    WantValue
  | WantValueOrClose
  | WantKeyOrClose
  | WantKey
  | WantColon
  | WantCommaOrClose
  | Complete json
  | ParseFail

fun deliver :: "json \<Rightarrow> frame list \<Rightarrow> pmode \<times> frame list" where
  "deliver v [] = (Complete v, [])"
| "deliver v (ArrayFrame es # st) = (WantCommaOrClose, ArrayFrame (es @ [v]) # st)"
| "deliver v (MemberFrame ms k # st) = (WantCommaOrClose, ObjectFrame (ms @ [(k, v)]) # st)"
| "deliver v (ObjectFrame ms # st) = (ParseFail, ObjectFrame ms # st)"

fun value_step :: "token \<Rightarrow> frame list \<Rightarrow> pmode \<times> frame list" where
  "value_step (TValue v) st = deliver v st"
| "value_step TLBracket st = (WantValueOrClose, ArrayFrame [] # st)"
| "value_step TLBrace st = (WantKeyOrClose, ObjectFrame [] # st)"
| "value_step tok st = (ParseFail, st)"

fun close_step :: "token \<Rightarrow> frame list \<Rightarrow> pmode \<times> frame list" where
  "close_step TRBracket (ArrayFrame es # st) = deliver (JArray es) st"
| "close_step TRBrace (ObjectFrame ms # st) = deliver (JObject ms) st"
| "close_step tok st = (ParseFail, st)"

fun key_step :: "token \<Rightarrow> frame list \<Rightarrow> pmode \<times> frame list" where
  "key_step (TValue (JString k)) (ObjectFrame ms # st) = (WantColon, MemberFrame ms k # st)"
| "key_step tok st = (ParseFail, st)"

fun comma_step :: "frame list \<Rightarrow> pmode \<times> frame list" where
  "comma_step (ArrayFrame es # st) = (WantValue, ArrayFrame es # st)"
| "comma_step (ObjectFrame ms # st) = (WantKey, ObjectFrame ms # st)"
| "comma_step st = (ParseFail, st)"

fun parse_step :: "pmode \<times> frame list \<Rightarrow> token \<Rightarrow> pmode \<times> frame list" where
  "parse_step (WantValue, st) tok = value_step tok st"
| "parse_step (WantValueOrClose, st) tok =
     (if tok = TRBracket then close_step tok st else value_step tok st)"
| "parse_step (WantKeyOrClose, st) tok =
     (if tok = TRBrace then close_step tok st else key_step tok st)"
| "parse_step (WantKey, st) tok = key_step tok st"
| "parse_step (WantColon, st) tok = (if tok = TColon then (WantValue, st) else (ParseFail, st))"
| "parse_step (WantCommaOrClose, st) tok =
     (if tok = TComma then comma_step st else close_step tok st)"
| "parse_step (Complete v, st) tok = (ParseFail, st)"
| "parse_step (ParseFail, st) tok = (ParseFail, st)"

definition parse_tokens :: "token list \<Rightarrow> json option" where
  "parse_tokens toks =
     (case foldl parse_step (WantValue, []) toks of
        (Complete v, st) \<Rightarrow> Some v
      | _ \<Rightarrow> None)"

text \<open>\<open>JSON.parse\<close>: \<open>None\<close> is the thrown \<open>SyntaxError\<close>.\<close>

definition JSON_parse :: "string \<Rightarrow> json option" where
  "JSON_parse s = (case lex s of None \<Rightarrow> None | Some toks \<Rightarrow> parse_tokens toks)"

definition sanitizeJSON :: "string \<Rightarrow> json option" where
  "sanitizeJSON raw =
     (case JSON_parse raw of
        Some v \<Rightarrow> Some v
      | None \<Rightarrow> (let cleaned = trim (stripFences raw) in JSON_parse cleaned))"

subsection \<open>The \<open>POST\<close> handler\<close>

text \<open>The two environment variables the handler reads; \<open>None\<close> is an unset variable.\<close>

record Env =
  OPENAI_API_KEY :: "string option"
  OPENAI_MODEL :: "string option"

text \<open>The one outbound request: the \<open>fetch\<close> to the chat-completions URL.\<close>

record ChatRequest =
  url :: string
  authorization :: string
  model :: string
  temperature :: jsnum
  response_format :: string
  messages :: "(string \<times> string) list"

text \<open>
  What the provider can answer: the \<open>fetch\<close> rejects; a response that is not
  \<open>ok\<close>, with its body text; an \<open>ok\<close> response whose body \<open>response.json()\<close>
  rejects; an \<open>ok\<close> response with the value of
  \<open>data?.choices?.[0]?.message?.content\<close>, \<open>None\<close> when that is null or undefined
  and a string otherwise, as the provider's contract has it.
\<close>

datatype providerReply =
    NetworkError
  | NotOk string
  | OkInvalidBody
  | OkContent "string option"

text \<open>The incoming request: \<open>request.json()\<close> rejects, or yields the brief.\<close>

datatype request = BadBody | Body AgentRequest

datatype responseBody = ErrorBody string | JsonBody json

record HttpResponse =
  status :: nat
  body :: responseBody

datatype outcome = Returned HttpResponse | Thrown

datatype logEntry = OpenAI_error string | JSON_parse_failed string

text \<open>What a run of the handler leaves behind: its outcome, the outbound calls it made,
  and the lines it wrote with \<open>console.error\<close>.\<close>

record Run =
  outcome :: outcome
  calls :: "ChatRequest list"
  logged :: "logEntry list"

definition missingKeyMessage :: string where
  "missingKeyMessage =
     ''Missing OPENAI_API_KEY. Add it to your environment before generating content.''"

definition providerFailedMessage :: string where
  "providerFailedMessage = ''The model could not generate a short. Please try again.''"

definition formattingFailedMessage :: string where
  "formattingFailedMessage =
     ''Generation succeeded but the response formatting failed. Try running again.''"

definition fallbackContent :: string where
  \<open>fallbackContent =
     ''{"headline":"Creative output unavailable","hook":"","storyline":[],"script":"","educationalMoments":[],"callToAction":"","safetyChecklist":[],"metadata":{"description":"","hashtags":[],"keywords":[],"publishingTip":""},"thumbnailConcepts":[],"repurposingIdeas":[]}''\<close>

text \<open>
  \<open>Math.min(0.95, Math.max(0.2, Number.isFinite(creativity) ? creativity + 0.2 : 0.6))\<close>
\<close>

definition deriveTemperature :: "jsnum \<Rightarrow> jsnum" where
  "deriveTemperature c =
     Math_min (toDouble (95 / 100))
       (Math_max (toDouble (2 / 10))
          (if Number_isFinite c then num_add c (toDouble (2 / 10)) else toDouble (6 / 10)))"

text \<open>The body and headers of the \<open>fetch\<close> that the handler sends.\<close>

definition chatRequest :: "(rat \<Rightarrow> string) \<Rightarrow> string \<Rightarrow> Env \<Rightarrow> AgentRequest \<Rightarrow> ChatRequest" where
  "chatRequest fmt key env payload =
     (let userPrompt = buildUserPrompt fmt payload;
          temperature = deriveTemperature (creativity payload)
      in \<lparr> url = ''https://api.openai.com/v1/chat/completions'',
           authorization = ''Bearer '' @ key,
           model = (case OPENAI_MODEL env of None \<Rightarrow> ''gpt-4o-mini'' | Some m \<Rightarrow> m),
           temperature = temperature,
           response_format = ''json_object'',
           messages = [(''system'', systemPrompt), (''user'', userPrompt)] \<rparr>)"

text \<open>The rest of the handler, from the provider's reply on.\<close>

definition respond :: "providerReply \<Rightarrow> ChatRequest \<Rightarrow> Run" where
  "respond reply req =
     (case reply of
        NetworkError \<Rightarrow> \<lparr> outcome = Thrown, calls = [req], logged = [] \<rparr>
      | NotOk errorText \<Rightarrow>
          \<lparr> outcome = Returned \<lparr> status = 502, body = ErrorBody providerFailedMessage \<rparr>,
            calls = [req], logged = [OpenAI_error errorText] \<rparr>
      | OkInvalidBody \<Rightarrow> \<lparr> outcome = Thrown, calls = [req], logged = [] \<rparr>
      | OkContent c \<Rightarrow>
          (let content = (case c of None \<Rightarrow> fallbackContent | Some text \<Rightarrow> text)
           in (case sanitizeJSON content of
                 Some json \<Rightarrow>
                   \<lparr> outcome = Returned \<lparr> status = 200, body = JsonBody json \<rparr>,
                     calls = [req], logged = [] \<rparr>
               | None \<Rightarrow>
                   \<lparr> outcome =
                       Returned \<lparr> status = 500, body = ErrorBody formattingFailedMessage \<rparr>,
                     calls = [req], logged = [JSON_parse_failed content] \<rparr>)))"

text \<open>
  The handler. \<open>!process.env.OPENAI_API_KEY\<close> holds for an unset and for an empty
  variable. The provider is a function from the request sent to the reply received.
\<close>

definition POST :: "(rat \<Rightarrow> string) \<Rightarrow> Env \<Rightarrow> (ChatRequest \<Rightarrow> providerReply) \<Rightarrow> request \<Rightarrow> Run" where
  "POST fmt env provider request =
     (case OPENAI_API_KEY env of
        None \<Rightarrow>
          \<lparr> outcome = Returned \<lparr> status = 500, body = ErrorBody missingKeyMessage \<rparr>,
            calls = [], logged = [] \<rparr>
      | Some key \<Rightarrow>
          if key = []
          then \<lparr> outcome = Returned \<lparr> status = 500, body = ErrorBody missingKeyMessage \<rparr>,
                 calls = [], logged = [] \<rparr>
          else (case request of
                  BadBody \<Rightarrow> \<lparr> outcome = Thrown, calls = [], logged = [] \<rparr>
                | Body payload \<Rightarrow>
                    (let req = chatRequest fmt key env payload
                     in respond (provider req) req)))"

section \<open>Sample inputs\<close>

definition sampleFmt :: "rat \<Rightarrow> string" where
  "sampleFmt r = ''?''"

definition sampleEnv :: Env where
  "sampleEnv = \<lparr> OPENAI_API_KEY = Some ''sk-test'', OPENAI_MODEL = None \<rparr>"

definition sampleBrief :: AgentRequest where
  "sampleBrief =
     \<lparr> channelName = ''WonderKids'', topic = ''Chameleons'', targetAge = ''Ages 5-8'',
       learningOutcome = [], tone = ''Playful & Silly'', heroCharacter = [],
       runtimeSeconds = Fin 45, callToAction = ''Subscribe!'', cadence = ''Daily'',
       extraNotes = [], creativity = toDouble (6 / 10) \<rparr>"

text \<open>A provider that gives the same reply to every request.\<close>

definition replyWith :: "providerReply \<Rightarrow> ChatRequest \<Rightarrow> providerReply" where
  "replyWith r req = r"

text \<open>A string as the list of its code units.\<close>

definition code_units :: "string \<Rightarrow> nat list" where
  "code_units s = map of_char s"

text \<open>The value that \<open>fallbackContent\<close> denotes.\<close>

definition emptyPlan :: json where
  "emptyPlan =
     JObject
       [(code_units ''headline'', JString (code_units ''Creative output unavailable'')),
        (code_units ''hook'', JString []),
        (code_units ''storyline'', JArray []),
        (code_units ''script'', JString []),
        (code_units ''educationalMoments'', JArray []),
        (code_units ''callToAction'', JString []),
        (code_units ''safetyChecklist'', JArray []),
        (code_units ''metadata'',
           JObject
             [(code_units ''description'', JString []),
              (code_units ''hashtags'', JArray []),
              (code_units ''keywords'', JArray []),
              (code_units ''publishingTip'', JString [])]),
        (code_units ''thumbnailConcepts'', JArray []),
        (code_units ''repurposingIdeas'', JArray [])]"

definition sampleScene :: "string \<Rightarrow> AgentScene" where
  "sampleScene b =
     \<lparr> beat = b, timing = ''0-5s'', narration = ''Hello!'', visuals = ''Gecko waves'',
       soundDesign = ''Pop'' \<rparr>"

definition samplePlan :: AgentResponse where
  "samplePlan =
     \<lparr> headline = ''Colour magic'', hook = ''Why do chameleons change colours?'',
       storyline = [sampleScene ''Hook'', sampleScene ''Question'', sampleScene ''Answer'',
                    sampleScene ''Sing-along'', sampleScene ''Outro''],
       script = ''Hello!'', educationalMoments = [], planCallToAction = ''Subscribe!'',
       safetyChecklist = [],
       metadata = \<lparr> description = [], hashtags = [], keywordList = [], publishingTip = [] \<rparr>,
       thumbnailConcepts = [], repurposingIdeas = [] \<rparr>"

definition sampleHome :: HomeState where
  "sampleHome =
     \<lparr> formState = defaultForm\<lparr> AgentFormState.runtimeSeconds := Fin 90,
                                 AgentFormState.cadence := Weekly \<rparr>,
       result = Some samplePlan, isLoading = False,
       errorMessage = Some ''Copied to clipboard!'' \<rparr>"

section \<open>The outbound call\<close>

lemma calls_POST:
  "OPENAI_API_KEY env = Some key \<Longrightarrow> key \<noteq> [] \<Longrightarrow>
   calls (POST fmt env provider (Body payload)) = [chatRequest fmt key env payload]"
  by (simp add: POST_def respond_def Let_def split: providerReply.split option.split)

lemma POST_respond:
  "OPENAI_API_KEY env = Some key \<Longrightarrow> key \<noteq> [] \<Longrightarrow>
   POST fmt env provider (Body payload) =
     respond (provider (chatRequest fmt key env payload)) (chatRequest fmt key env payload)"
  by (simp add: POST_def Let_def)

lemma temperature_chatRequest:
  "temperature (chatRequest fmt key env payload) = deriveTemperature (creativity payload)"
  by (simp add: chatRequest_def)

section \<open>Doubles\<close>

lemma floor_rat_numeral:
  "\<lfloor>numeral a / numeral b :: rat\<rfloor> = numeral a div numeral b"
  using floor_divide_of_int_eq [of "numeral a" "numeral b", where ?'a = rat] by simp

lemma ceiling_rat_numeral:
  "\<lceil>numeral a / numeral b :: rat\<rceil> = - ((- numeral a) div numeral b)"
  using floor_divide_of_int_eq [of "- numeral a" "numeral b", where ?'a = rat]
  by (simp add: ceiling_def)

lemmas double_eval =
  binade_def bitLength.simps roundEven_def pow2_def Let_def floor_rat_numeral ceiling_rat_numeral

lemma toDouble_normal:
  assumes "0 < x" and "binade x = e" and "- 1022 \<le> e" and "e < 1023"
    and "roundEven (x / pow2 (e - 52)) = m"
    and "of_int m * pow2 (e - 52) = v"
  shows "toDouble x = Fin v"
  using assms by (simp add: toDouble_def Let_def)

lemma toDouble_not_NaN: "toDouble x \<noteq> NaN"
  by (simp add: toDouble_def Let_def)

text \<open>The doubles that the literals \<open>0.1\<close>, \<open>0.2\<close>, \<open>0.3\<close>, \<open>0.6\<close>, \<open>0.8\<close>, \<open>0.95\<close> denote.\<close>

lemma double_0_1: "toDouble (1 / 10) = Fin (3602879701896397 / 36028797018963968)"
  by (rule toDouble_normal [where e = "- 4" and m = 7205759403792794])
    (simp_all add: double_eval)

lemma double_0_2: "toDouble (1 / 5) = Fin (3602879701896397 / 18014398509481984)"
  by (rule toDouble_normal [where e = "- 3" and m = 7205759403792794])
    (simp_all add: double_eval)

lemma double_0_3: "toDouble (3 / 10) = Fin (5404319552844595 / 18014398509481984)"
  by (rule toDouble_normal [where e = "- 2" and m = 5404319552844595])
    (simp_all add: double_eval)

lemma double_0_6: "toDouble (3 / 5) = Fin (5404319552844595 / 9007199254740992)"
  by (rule toDouble_normal [where e = "- 1" and m = 5404319552844595])
    (simp_all add: double_eval)

lemma double_0_8: "toDouble (4 / 5) = Fin (3602879701896397 / 4503599627370496)"
  by (rule toDouble_normal [where e = "- 1" and m = 7205759403792794])
    (simp_all add: double_eval)

lemma double_0_95: "toDouble (19 / 20) = Fin (4278419646001971 / 4503599627370496)"
  by (rule toDouble_normal [where e = "- 1" and m = 8556839292003942])
    (simp_all add: double_eval)

text \<open>The double that the literal \<open>0.30000000000000004\<close> denotes.\<close>

lemma double_0_30000000000000004:
  "toDouble (30000000000000004 / 100000000000000000) =
     Fin (1351079888211149 / 4503599627370496)"
  by (rule toDouble_normal [where e = "- 2" and m = 5404319552844596])
    (simp_all add: double_eval)

lemma double_0_30000000000000004_lowest:
  "toDouble (7500000000000001 / 25000000000000000) =
     Fin (1351079888211149 / 4503599627370496)"
  using double_0_30000000000000004 by simp

text \<open>
  \<open>0.1 + 0.2\<close> and \<open>2 + 0.2\<close> in doubles: the exact sums of the two doubles are
  \<open>10808639105689191 / 2^55\<close> and \<open>39631676720860365 / 2^54\<close>.
\<close>

lemma double_sum_0_1:
  "toDouble (10808639105689191 / 36028797018963968) =
     Fin (1351079888211149 / 4503599627370496)"
  by (rule toDouble_normal [where e = "- 2" and m = 5404319552844596])
    (simp_all add: double_eval)

lemma double_sum_2:
  "toDouble (39631676720860365 / 18014398509481984) =
     Fin (2476979795053773 / 1125899906842624)"
  by (rule toDouble_normal [where e = 1 and m = 4953959590107546])
    (simp_all add: double_eval)

section \<open>Temperature\<close>

lemma deriveTemperature_finite:
  "Number_isFinite c \<Longrightarrow>
   deriveTemperature c =
     Math_min (toDouble (95 / 100)) (Math_max (toDouble (2 / 10)) (num_add c (toDouble (2 / 10))))"
  by (simp add: deriveTemperature_def)

lemma deriveTemperature_not_finite:
  "\<not> Number_isFinite c \<Longrightarrow> deriveTemperature c = toDouble (6 / 10)"
  by (simp add: deriveTemperature_def double_0_2 double_0_6 double_0_95 Math_min_def Math_max_def)

lemma clamp_within:
  assumes "x \<noteq> NaN" and "lo \<le> hi"
  shows "\<not> num_less (Math_min (Fin hi) (Math_max (Fin lo) x)) (Fin lo) \<and>
         \<not> num_less (Fin hi) (Math_min (Fin hi) (Math_max (Fin lo) x)) \<and>
         Math_min (Fin hi) (Math_max (Fin lo) x) \<noteq> NaN"
  using assms by (cases x) (auto simp add: Math_min_def Math_max_def)

lemma deriveTemperature_within:
  "\<not> num_less (deriveTemperature c) (toDouble (2 / 10)) \<and>
   \<not> num_less (toDouble (95 / 100)) (deriveTemperature c) \<and>
   deriveTemperature c \<noteq> NaN"
proof (cases c)
  case (Fin r)
  have "num_add (Fin r) (Fin (3602879701896397 / 18014398509481984)) \<noteq> NaN"
    by (simp add: toDouble_not_NaN)
  then show ?thesis
    using clamp_within [of "num_add (Fin r) (Fin (3602879701896397 / 18014398509481984))"
        "3602879701896397 / 18014398509481984" "4278419646001971 / 4503599627370496"]
    by (simp add: Fin deriveTemperature_def double_0_2 double_0_95)
qed (simp_all add: deriveTemperature_not_finite double_0_2 double_0_6 double_0_95)

text \<open>
  C1 (as amended). With a credential set, the handler makes one call. For every
  finite creativity, inside \<open>[0, 1]\<close> or not, the temperature it sends is
  \<open>creativity + 0.2\<close> clamped to \<open>[0.2, 0.95]\<close>, where the literals are doubles and
  the sum is the rounded sum of doubles; for a creativity that is not finite it is
  \<open>0.6\<close>. In every case it lies between \<open>0.2\<close> and \<open>0.95\<close>.
\<close>

theorem temperature_sent:
  assumes "OPENAI_API_KEY env = Some key" and "key \<noteq> []"
  shows "map temperature (calls (POST fmt env provider (Body payload))) =
           [if Number_isFinite (creativity payload)
            then Math_min (toDouble (95 / 100))
                   (Math_max (toDouble (2 / 10))
                      (num_add (creativity payload) (toDouble (2 / 10))))
            else toDouble (6 / 10)] \<and>
         (\<forall>t \<in> set (map temperature (calls (POST fmt env provider (Body payload)))).
            \<not> num_less t (toDouble (2 / 10)) \<and> \<not> num_less (toDouble (95 / 100)) t \<and>
            t \<noteq> NaN)"
proof -
  have sent: "map temperature (calls (POST fmt env provider (Body payload))) =
      [deriveTemperature (creativity payload)]"
    using assms by (simp add: calls_POST temperature_chatRequest)
  show ?thesis
  proof (cases "Number_isFinite (creativity payload)")
    case True
    then show ?thesis
      using deriveTemperature_within [of "creativity payload"]
      by (simp only: sent deriveTemperature_finite [OF True] list.set singleton_iff
          ball_simps if_True simp_thms)
  next
    case False
    then show ?thesis
      using deriveTemperature_within [of "creativity payload"]
      by (simp only: sent deriveTemperature_not_finite [OF False] list.set singleton_iff
          ball_simps if_False simp_thms)
  qed
qed

lemma temperature_at_0_1:
  "deriveTemperature (toDouble (1 / 10)) = Fin (1351079888211149 / 4503599627370496)"
  by (simp add: deriveTemperature_def double_0_1 double_0_2 double_0_95 double_sum_0_1
      Math_min_def Math_max_def)

lemma temperature_at_2: "deriveTemperature (Fin 2) = toDouble (95 / 100)"
  by (simp add: deriveTemperature_def double_0_2 double_0_95 double_sum_2
      Math_min_def Math_max_def)

text \<open>
  The slider positions \<open>0.4\<close> and \<open>0.7\<close>, like \<open>0.1\<close>, show the rounding of the sum:
  they are sent as \<open>0.6000000000000001\<close> and \<open>0.8999999999999999\<close>.
\<close>

lemma double_0_4: "toDouble (2 / 5) = Fin (3602879701896397 / 9007199254740992)"
  by (rule toDouble_normal [where e = "- 2" and m = 7205759403792794])
    (simp_all add: double_eval)

lemma double_0_7: "toDouble (7 / 10) = Fin (3152519739159347 / 4503599627370496)"
  by (rule toDouble_normal [where e = "- 1" and m = 6305039478318694])
    (simp_all add: double_eval)

lemma double_sum_0_4:
  "toDouble (10808639105689191 / 18014398509481984) =
     Fin (1351079888211149 / 2251799813685248)"
  by (rule toDouble_normal [where e = "- 1" and m = 5404319552844596])
    (simp_all add: double_eval)

lemma double_sum_0_7:
  "toDouble (16212958658533785 / 18014398509481984) =
     Fin (2026619832316723 / 2251799813685248)"
  by (rule toDouble_normal [where e = "- 1" and m = 8106479329266892])
    (simp_all add: double_eval)

lemma double_0_6000000000000001:
  "toDouble (6000000000000001 / 10000000000000000) =
     Fin (1351079888211149 / 2251799813685248)"
  by (rule toDouble_normal [where e = "- 1" and m = 5404319552844596])
    (simp_all add: double_eval)

lemma double_0_8999999999999999:
  "toDouble (8999999999999999 / 10000000000000000) =
     Fin (2026619832316723 / 2251799813685248)"
  by (rule toDouble_normal [where e = "- 1" and m = 8106479329266892])
    (simp_all add: double_eval)

lemma temperature_at_0_4:
  "deriveTemperature (toDouble (4 / 10)) = toDouble (6000000000000001 / 10000000000000000)"
  by (simp add: deriveTemperature_def double_0_4 double_0_2 double_0_95 double_sum_0_4
      double_0_6000000000000001 Math_min_def Math_max_def)

lemma temperature_at_0_7:
  "deriveTemperature (toDouble (7 / 10)) = toDouble (8999999999999999 / 10000000000000000)"
  by (simp add: deriveTemperature_def double_0_7 double_0_2 double_0_95 double_sum_0_7
      double_0_8999999999999999 Math_min_def Math_max_def)

theorem temperature_sent_witness:
  "map temperature
     (calls (POST sampleFmt sampleEnv (replyWith (NotOk []))
        (Body (sampleBrief\<lparr> creativity := toDouble (1 / 10) \<rparr>))))
   = [toDouble (30000000000000004 / 100000000000000000)] \<and>
   toDouble (30000000000000004 / 100000000000000000) \<noteq> toDouble (3 / 10) \<and>
   map temperature
     (calls (POST sampleFmt sampleEnv (replyWith (NotOk []))
        (Body (sampleBrief\<lparr> creativity := NaN \<rparr>))))
   = [toDouble (6 / 10)]"
  using temperature_sent [of sampleEnv "''sk-test''" sampleFmt "replyWith (NotOk [])"
          "sampleBrief\<lparr> creativity := toDouble (1 / 10) \<rparr>"]
        temperature_sent [of sampleEnv "''sk-test''" sampleFmt "replyWith (NotOk [])"
          "sampleBrief\<lparr> creativity := NaN \<rparr>"]
  by (simp add: sampleEnv_def double_0_1 double_0_2 double_0_3 double_0_95 double_sum_0_1
      double_0_30000000000000004_lowest Math_min_def Math_max_def)

text \<open>
  C1 as stated fails: a creativity of 2 is outside \<open>[0, 1]\<close> and is sent as \<open>0.95\<close>, an
  infinite creativity is sent as \<open>0.6\<close>; neither is \<open>0.8\<close>.
\<close>

theorem temperature_fallback_counterexample:
  "map temperature
     (calls (POST sampleFmt sampleEnv (replyWith (NotOk []))
        (Body (sampleBrief\<lparr> creativity := Fin 2 \<rparr>))))
   = [toDouble (95 / 100)] \<and>
   map temperature
     (calls (POST sampleFmt sampleEnv (replyWith (NotOk []))
        (Body (sampleBrief\<lparr> creativity := PosInf \<rparr>))))
   = [toDouble (6 / 10)] \<and>
   toDouble (95 / 100) \<noteq> toDouble (8 / 10) \<and> toDouble (6 / 10) \<noteq> toDouble (8 / 10)"
  by (simp add: sampleEnv_def calls_POST temperature_chatRequest temperature_at_2
      deriveTemperature_not_finite double_0_6 double_0_8 double_0_95)

section \<open>Missing credential\<close>

text \<open>
  C2. When the credential variable is absent (or set to the empty string), the handler
  returns status 500 with the fixed message, whatever the request and the provider
  are, and makes no outbound call.
\<close>

theorem missing_credential:
  assumes "OPENAI_API_KEY env = None \<or> OPENAI_API_KEY env = Some []"
  shows "POST fmt env provider request =
           \<lparr> outcome = Returned \<lparr> status = 500, body = ErrorBody missingKeyMessage \<rparr>,
             calls = [], logged = [] \<rparr>"
  using assms by (auto simp add: POST_def)

theorem missing_credential_witness:
  "POST sampleFmt (sampleEnv\<lparr> OPENAI_API_KEY := None \<rparr>) (replyWith (OkContent None))
     (Body sampleBrief) =
     \<lparr> outcome = Returned \<lparr> status = 500, body = ErrorBody missingKeyMessage \<rparr>,
       calls = [], logged = [] \<rparr>"
  using missing_credential [of "sampleEnv\<lparr> OPENAI_API_KEY := None \<rparr>" sampleFmt
          "replyWith (OkContent None)" "Body sampleBrief"]
  by simp

section \<open>Provider errors\<close>

text \<open>
  C8. When the provider's response is not \<open>ok\<close>, the handler returns status 502 with
  the fixed retry message. The response does not depend on the provider's error body:
  two runs that differ only in that body return the same response, and the body goes
  to the server log only.
\<close>

theorem provider_error_not_leaked:
  assumes "OPENAI_API_KEY env = Some key" and "key \<noteq> []"
    and "provider (chatRequest fmt key env payload) = NotOk errorText"
    and "provider' (chatRequest fmt key env payload) = NotOk errorText'"
  shows "outcome (POST fmt env provider (Body payload)) =
           Returned \<lparr> status = 502, body = ErrorBody providerFailedMessage \<rparr> \<and>
         outcome (POST fmt env provider' (Body payload)) =
           outcome (POST fmt env provider (Body payload)) \<and>
         calls (POST fmt env provider (Body payload)) = [chatRequest fmt key env payload] \<and>
         logged (POST fmt env provider (Body payload)) = [OpenAI_error errorText]"
  using assms by (simp add: POST_respond respond_def)

theorem provider_error_not_leaked_witness:
  "outcome (POST sampleFmt sampleEnv (replyWith (NotOk ''quota exceeded'')) (Body sampleBrief)) =
     Returned \<lparr> status = 502, body = ErrorBody providerFailedMessage \<rparr> \<and>
   outcome (POST sampleFmt sampleEnv (replyWith (NotOk ''invalid api key'')) (Body sampleBrief)) =
     outcome (POST sampleFmt sampleEnv (replyWith (NotOk ''quota exceeded'')) (Body sampleBrief))"
  using provider_error_not_leaked [of sampleEnv "''sk-test''"
      "replyWith (NotOk ''quota exceeded'')" sampleFmt sampleBrief "''quota exceeded''"
      "replyWith (NotOk ''invalid api key'')" "''invalid api key''"]
  by (simp add: sampleEnv_def replyWith_def)

section \<open>Runtime\<close>

lemma showNat_15: "showNat 15 = ''15''"
  by code_simp

lemma showNat_45: "showNat 45 = ''45''"
  by code_simp

lemma showNat_90: "showNat 90 = ''90''"
  by code_simp

lemma clamp_below: "num_less x (Fin 15) \<Longrightarrow> Math_max (Fin 15) (Math_min (Fin 90) x) = Fin 15"
  by (cases x) (simp_all add: Math_max_def Math_min_def)

lemma clamp_above: "num_less (Fin 90) x \<Longrightarrow> Math_max (Fin 15) (Math_min (Fin 90) x) = Fin 90"
  by (cases x) (simp_all add: Math_max_def Math_min_def)

lemma clamp_15: "Math_max (Fin 15) (Math_min (Fin 90) (Fin 15)) = Fin 15"
  by (simp add: Math_max_def Math_min_def)

lemma clamp_90: "Math_max (Fin 15) (Math_min (Fin 90) (Fin 90)) = Fin 90"
  by (simp add: Math_max_def Math_min_def)

lemma numberToString_15: "numberToString fmt (Fin 15) = ''15''"
  by (simp add: numberToString_def showNat_15)

lemma numberToString_90: "numberToString fmt (Fin 90) = ''90''"
  by (simp add: numberToString_def showNat_90)

lemma toFixed0_15: "toFixed0 fmt (Fin 15) = ''15''"
proof -
  have "\<lfloor>(15::rat) + 1 / 2\<rfloor> = 15" by linarith
  then show ?thesis by (simp add: toFixed0_def showNat_15)
qed

lemma toFixed0_90: "toFixed0 fmt (Fin 90) = ''90''"
proof -
  have "\<lfloor>(90::rat) + 1 / 2\<rfloor> = 90" by linarith
  then show ?thesis by (simp add: toFixed0_def showNat_90)
qed

text \<open>
  C5. For a runtime below 15 or above 90 (the infinities included), the client shows
  \<open>15s\<close> or \<open>90s\<close>, the runtime line of the prompt reads 15 or 90 seconds, and the
  whole prompt is the prompt of the clamped runtime.
\<close>

theorem runtime_clamped:
  assumes "num_less x (Fin 15) \<or> num_less (Fin 90) x"
  shows "formatSeconds fmt x = (if num_less x (Fin 15) then ''15s'' else ''90s'') \<and>
         promptLines fmt (payload\<lparr> runtimeSeconds := x \<rparr>) ! 6 =
           (if num_less x (Fin 15) then ''Ideal runtime: 15 seconds''
            else ''Ideal runtime: 90 seconds'') \<and>
         buildUserPrompt fmt (payload\<lparr> runtimeSeconds := x \<rparr>) =
           buildUserPrompt fmt
             (payload\<lparr> runtimeSeconds := (if num_less x (Fin 15) then Fin 15 else Fin 90) \<rparr>)"
proof (cases "num_less x (Fin 15)")
  case True
  then show ?thesis
    by (simp add: formatSeconds_def promptLines_def buildUserPrompt_def clamp_below
        toFixed0_15 numberToString_15 clamp_15)
next
  case False
  with assms have "num_less (Fin 90) x" by simp
  with False show ?thesis
    by (simp add: formatSeconds_def promptLines_def buildUserPrompt_def clamp_above
        toFixed0_90 numberToString_90 clamp_90)
qed

theorem runtime_clamped_witness:
  "formatSeconds sampleFmt (Fin 120) = ''90s'' \<and>
   promptLines sampleFmt (sampleBrief\<lparr> runtimeSeconds := Fin 120 \<rparr>) ! 6 =
     ''Ideal runtime: 90 seconds'' \<and>
   formatSeconds sampleFmt (Fin 3) = ''15s'' \<and>
   promptLines sampleFmt (sampleBrief\<lparr> runtimeSeconds := Fin 3 \<rparr>) ! 6 =
     ''Ideal runtime: 15 seconds''"
  using runtime_clamped [of "Fin 120" sampleFmt sampleBrief]
    runtime_clamped [of "Fin 3" sampleFmt sampleBrief]
  by simp

section \<open>The quick preview\<close>

text \<open>
  C6. With a plan on display, the previewed scenes are the first three of the
  storyline (all of them when there are fewer), each at its original position; the
  panel lists exactly these, and lists none for an empty storyline.
\<close>

theorem quick_preview_first_three:
  assumes "result s = Some r"
  shows "scenePreview s = take 3 (storyline r) \<and>
         length (scenePreview s) = min 3 (length (storyline r)) \<and>
         (\<forall>i < length (scenePreview s). scenePreview s ! i = storyline r ! i) \<and>
         quickPreview s =
           PreviewCard (headline r) (hook r)
             (map (\<lambda>scene. (timing scene, beat scene, narration scene))
                (take 3 (storyline r))) \<and>
         (storyline r = [] \<longrightarrow> quickPreview s = PreviewCard (headline r) (hook r) [])"
  using assms by (simp add: scenePreview_def quickPreview_def)

theorem quick_preview_first_three_witness:
  "scenePreview (handleSubmit initialHome (OkReply samplePlan)) =
     [sampleScene ''Hook'', sampleScene ''Question'', sampleScene ''Answer'']"
  using quick_preview_first_three [of "handleSubmit initialHome (OkReply samplePlan)" samplePlan]
  by (simp add: handleSubmit_def submitPending_def samplePlan_def)

section \<open>Reset\<close>

text \<open>
  C7 (as amended). From any state, the reset action clears the plan and the message
  and puts the default brief back: age \<open>Ages 5-8\<close>, tone \<open>Playful & Silly\<close>, runtime
  45, cadence \<open>3 videos / week\<close>, creativity 0.6, call to action
  \<open>Subscribe for more adventures!\<close>, the other fields empty.
\<close>

theorem reset_restores_defaults:
  "formState (handleReset s) = defaultForm \<and>
   result (handleReset s) = None \<and>
   errorMessage (handleReset s) = None \<and>
   isLoading (handleReset s) = isLoading s \<and>
   AgentFormState.targetAge defaultForm = ''Ages 5-8'' \<and>
   toneString (AgentFormState.tone defaultForm) = ''Playful & Silly'' \<and>
   AgentFormState.runtimeSeconds defaultForm = Fin 45 \<and>
   cadenceString (AgentFormState.cadence defaultForm) = ''3 videos / week'' \<and>
   AgentFormState.creativity defaultForm = toDouble (6 / 10) \<and>
   AgentFormState.channelName defaultForm = [] \<and>
   AgentFormState.topic defaultForm = [] \<and>
   AgentFormState.learningOutcome defaultForm = [] \<and>
   AgentFormState.heroCharacter defaultForm = [] \<and>
   AgentFormState.callToAction defaultForm = ''Subscribe for more adventures!'' \<and>
   AgentFormState.extraNotes defaultForm = []"
  by (simp add: handleReset_def defaultForm_def)

theorem reset_restores_defaults_witness:
  "formState (handleReset (handleSubmit sampleHome (OkReply samplePlan))) = defaultForm \<and>
   result (handleReset (handleSubmit sampleHome (OkReply samplePlan))) = None \<and>
   errorMessage (handleReset (handleSubmit sampleHome (OkReply samplePlan))) = None"
  using reset_restores_defaults [of "handleSubmit sampleHome (OkReply samplePlan)"] by simp

text \<open>
  C7 as stated names the cadence \<open>3 videos/week\<close>; the cadence after a reset is the
  string \<open>3 videos / week\<close>.
\<close>

theorem reset_cadence_counterexample:
  "cadenceString (AgentFormState.cadence (formState (handleReset sampleHome))) =
     ''3 videos / week'' \<and>
   cadenceString (AgentFormState.cadence (formState (handleReset sampleHome))) \<noteq>
     ''3 videos/week''"
  by (simp add: handleReset_def defaultForm_def)

section \<open>The user prompt\<close>

text \<open>
  C9 (as amended). The prompt is the ten lines below joined by line feeds. Four fields
  have a fallback text that stands in exactly when the field is empty: channel name,
  learning outcome, hero character and extra notes. Topic, target age, tone, cadence
  and call to action are written as they are, empty or not; the runtime is written
  clamped; creativity does not reach the prompt.
\<close>

theorem prompt_lines:
  "buildUserPrompt fmt p = join ''\<newline>'' (promptLines fmt p) \<and>
   promptLines fmt p =
     [''Channel name: '' @ (if channelName p = [] then ''Not provided'' else channelName p),
      ''Short concept: '' @ topic p,
      ''Target age group: '' @ targetAge p,
      ''Desired learning outcome: '' @
        (if learningOutcome p = [] then ''Create an age-appropriate takeaway.''
         else learningOutcome p),
      ''Tone: '' @ tone p,
      ''Hero or host: '' @
        (if heroCharacter p = [] then ''Create an original, friendly character.''
         else heroCharacter p),
      ''Ideal runtime: '' @
        numberToString fmt (Math_max (Fin 15) (Math_min (Fin 90) (runtimeSeconds p))) @
        '' seconds'',
      ''Publishing cadence: '' @ cadence p,
      ''Call to action requested: '' @ callToAction p,
      ''Extra notes / constraints: '' @
        (if extraNotes p = [] then ''Stay joyful, ethical, and child-safe.''
         else extraNotes p)] \<and>
   buildUserPrompt fmt (p\<lparr> creativity := c \<rparr>) = buildUserPrompt fmt p"
  by (simp add: buildUserPrompt_def promptLines_def or_else_def)

theorem prompt_lines_witness:
  "promptLines sampleFmt sampleBrief =
     [''Channel name: WonderKids'',
      ''Short concept: Chameleons'',
      ''Target age group: Ages 5-8'',
      ''Desired learning outcome: Create an age-appropriate takeaway.'',
      ''Tone: Playful & Silly'',
      ''Hero or host: Create an original, friendly character.'',
      ''Ideal runtime: 45 seconds'',
      ''Publishing cadence: Daily'',
      ''Call to action requested: Subscribe!'',
      ''Extra notes / constraints: Stay joyful, ethical, and child-safe.'']"
  using prompt_lines [of sampleFmt sampleBrief NaN]
  by (simp add: sampleBrief_def Math_max_def Math_min_def numberToString_def showNat_45)

text \<open>
  C9 as stated fails: the channel name is none of the three optional fields, and an
  empty channel name is not written as it is but replaced by \<open>Not provided\<close>.
\<close>

theorem channel_name_fallback_counterexample:
  "promptLines sampleFmt (sampleBrief\<lparr> channelName := [] \<rparr>) ! 0 =
     ''Channel name: Not provided'' \<and>
   promptLines sampleFmt (sampleBrief\<lparr> channelName := [] \<rparr>) ! 0 \<noteq>
     ''Channel name: '' @ channelName (sampleBrief\<lparr> channelName := [] \<rparr>)"
  by (simp add: promptLines_def or_else_def)

section \<open>Completions that are not JSON\<close>

text \<open>
  C4 (as amended). When the completion text parses neither as it is nor after the
  fences are stripped and the white space at both ends is trimmed, the handler returns
  status 500 with the formatting-failed message, after its one call.
\<close>

theorem formatting_failed:
  assumes "OPENAI_API_KEY env = Some key" and "key \<noteq> []"
    and "provider (chatRequest fmt key env payload) = OkContent (Some raw)"
    and "JSON_parse raw = None"
    and "JSON_parse (trim (stripFences raw)) = None"
  shows "POST fmt env provider (Body payload) =
           \<lparr> outcome = Returned \<lparr> status = 500, body = ErrorBody formattingFailedMessage \<rparr>,
             calls = [chatRequest fmt key env payload],
             logged = [JSON_parse_failed raw] \<rparr>"
  using assms by (simp add: POST_respond respond_def sanitizeJSON_def)

lemma not_json_example: "JSON_parse ''```Sure! Here is your plan.```'' = None"
  by code_simp

lemma not_json_example_stripped:
  "JSON_parse (trim (stripFences ''```Sure! Here is your plan.```'')) = None"
  by code_simp

theorem formatting_failed_witness:
  "outcome
     (POST sampleFmt sampleEnv (replyWith (OkContent (Some ''```Sure! Here is your plan.```'')))
        (Body sampleBrief)) =
   Returned \<lparr> status = 500, body = ErrorBody formattingFailedMessage \<rparr>"
  using formatting_failed [of sampleEnv "''sk-test''"
      "replyWith (OkContent (Some ''```Sure! Here is your plan.```''))" sampleFmt sampleBrief
      "''```Sure! Here is your plan.```''"]
    not_json_example not_json_example_stripped
  by (simp add: sampleEnv_def replyWith_def)

text \<open>
  C4 as stated fails: stripping the fences is not all the second attempt does. A JSON
  text behind a vertical tab parses neither as it is nor with the fences stripped (a
  vertical tab is no JSON white space), but the trim removes the tab and the handler
  returns the value with status 200.
\<close>

lemma padded_json_direct: \<open>JSON_parse (CHR 0x0B # ''{"hook":"Hi!"}'') = None\<close>
  by code_simp

lemma padded_json_stripped:
  \<open>JSON_parse (stripFences (CHR 0x0B # ''{"hook":"Hi!"}'')) = None\<close>
  by code_simp

lemma padded_json_sanitized:
  \<open>sanitizeJSON (CHR 0x0B # ''{"hook":"Hi!"}'') =
     Some (JObject [(code_units ''hook'', JString (code_units ''Hi!''))])\<close>
  by code_simp

theorem padded_json_counterexample:
  \<open>JSON_parse (CHR 0x0B # ''{"hook":"Hi!"}'') = None \<and>
   JSON_parse (stripFences (CHR 0x0B # ''{"hook":"Hi!"}'')) = None \<and>
   outcome
     (POST sampleFmt sampleEnv (replyWith (OkContent (Some (CHR 0x0B # ''{"hook":"Hi!"}''))))
        (Body sampleBrief)) =
     Returned \<lparr> status = 200,
       body = JsonBody (JObject [(code_units ''hook'', JString (code_units ''Hi!''))]) \<rparr>\<close>
proof -
  have \<open>POST sampleFmt sampleEnv (replyWith (OkContent (Some (CHR 0x0B # ''{"hook":"Hi!"}''))))
          (Body sampleBrief) =
        respond (OkContent (Some (CHR 0x0B # ''{"hook":"Hi!"}'')))
          (chatRequest sampleFmt ''sk-test'' sampleEnv sampleBrief)\<close>
    by (subst POST_respond [of sampleEnv "''sk-test''"]) (simp_all add: sampleEnv_def replyWith_def)
  then show ?thesis
    using padded_json_direct padded_json_stripped padded_json_sanitized
    by (simp add: respond_def)
qed

section \<open>Empty and absent completions\<close>

lemma JSON_parse_empty: "JSON_parse [] = None"
  by (simp add: JSON_parse_def lex_def parse_tokens_def)

lemma trim_empty: "trim [] = []"
  by (simp add: trim_def)

lemma JSON_parse_fallbackContent: "JSON_parse fallbackContent = Some emptyPlan"
  by code_simp

text \<open>
  C10. A completion that is present but empty is not replaced by the canned plan: both
  parse attempts fail on it and the handler returns status 500 with the
  formatting-failed message. Only an absent completion (null or undefined) is replaced,
  and then the canned plan is returned with status 200.
\<close>

theorem empty_content_not_replaced:
  assumes "OPENAI_API_KEY env = Some key" and "key \<noteq> []"
  shows "(provider (chatRequest fmt key env payload) = OkContent (Some []) \<longrightarrow>
            POST fmt env provider (Body payload) =
              \<lparr> outcome =
                  Returned \<lparr> status = 500, body = ErrorBody formattingFailedMessage \<rparr>,
                calls = [chatRequest fmt key env payload],
                logged = [JSON_parse_failed []] \<rparr>) \<and>
         (provider (chatRequest fmt key env payload) = OkContent None \<longrightarrow>
            POST fmt env provider (Body payload) =
              \<lparr> outcome = Returned \<lparr> status = 200, body = JsonBody emptyPlan \<rparr>,
                calls = [chatRequest fmt key env payload],
                logged = [] \<rparr>) \<and>
         JSON_parse [] = None \<and> JSON_parse (trim (stripFences [])) = None \<and>
         JSON_parse fallbackContent = Some emptyPlan"
  using assms
  by (simp add: POST_respond respond_def sanitizeJSON_def JSON_parse_empty trim_empty
      JSON_parse_fallbackContent)

theorem empty_content_not_replaced_witness:
  "outcome (POST sampleFmt sampleEnv (replyWith (OkContent (Some []))) (Body sampleBrief)) =
     Returned \<lparr> status = 500, body = ErrorBody formattingFailedMessage \<rparr> \<and>
   outcome (POST sampleFmt sampleEnv (replyWith (OkContent None)) (Body sampleBrief)) =
     Returned \<lparr> status = 200, body = JsonBody emptyPlan \<rparr>"
  using empty_content_not_replaced [of sampleEnv "''sk-test''"
      "replyWith (OkContent (Some []))" sampleFmt sampleBrief]
    empty_content_not_replaced [of sampleEnv "''sk-test''" "replyWith (OkContent None)"
      sampleFmt sampleBrief]
  by (simp add: sampleEnv_def replyWith_def)

section \<open>Fenced completions\<close>

subsection \<open>White space and the scanner\<close>

lemma js_space_cases:
  assumes "is_js_space c"
  shows "c = CHR 0x09 \<or> c = CHR 0x0A \<or> c = CHR 0x0B \<or> c = CHR 0x0C \<or> c = CHR 0x0D \<or>
         c = CHR 0x20 \<or> c = CHR 0xA0"
proof -
  from assms have "(of_char c :: nat) \<in> {9, 10, 11, 12, 13, 32, 160}"
    by (simp add: is_js_space_def)
  then consider "(of_char c :: nat) = of_char (CHR 0x09)" | "(of_char c :: nat) = of_char (CHR 0x0A)"
    | "(of_char c :: nat) = of_char (CHR 0x0B)" | "(of_char c :: nat) = of_char (CHR 0x0C)"
    | "(of_char c :: nat) = of_char (CHR 0x0D)" | "(of_char c :: nat) = of_char (CHR 0x20)"
    | "(of_char c :: nat) = of_char (CHR 0xA0)"
    by auto
  then show ?thesis
    by cases (simp_all only: of_char_eq_iff simp_thms)
qed

lemma js_space_step:
  assumes "is_js_space c"
  shows "between_step toks c = (if is_json_ws c then (Between, toks) else (LexFail, toks))"
    and "\<not> is_numchar c" and "\<not> is_letter c" and "c \<noteq> CHR 0x22" and "c \<noteq> CHR 0x5C"
    and "unescape c = None" and "c \<noteq> CHR ''u''" and "hex_value c = None"
    and "c \<noteq> CHR 0x60"
  using js_space_cases [OF assms]
  by (auto simp add: between_step_def is_json_ws_def is_digit_def is_letter_def is_numchar_def
      unescape_def hex_value_def)

lemma foldl_LexFail: "foldl lex_step (LexFail, toks) s = (LexFail, toks)"
  by (induction s) simp_all

lemma lex_Cons_backtick: "lex (CHR 0x60 # s) = None"
  by (simp add: lex_def between_step_def is_json_ws_def is_digit_def is_letter_def foldl_LexFail)

lemma lex_drop_leading:
  assumes "is_js_space c" and "lex (c # s) = Some toks"
  shows "lex s = Some toks"
  using assms
  by (cases "is_json_ws c") (simp_all add: lex_def js_space_step(1) foldl_LexFail)

lemma lex_drop_trailing:
  assumes "is_js_space c" and "lex (s @ [c]) = Some toks"
  shows "lex s = Some toks"
proof -
  obtain m ts where st: "foldl lex_step (Between, []) s = (m, ts)"
    by (cases "foldl lex_step (Between, []) s")
  from assms(2) have fin: "lex_finish (lex_step (m, ts) c) = Some toks"
    by (simp add: lex_def st)
  have "lex_finish (m, ts) = Some toks"
  proof (cases m)
    case Between
    with fin show ?thesis
      by (simp add: js_space_step(1) [OF assms(1)] split: if_splits)
  next
    case (InString acc)
    with fin show ?thesis
      using js_space_step [OF assms(1)] by (simp split: if_splits)
  next
    case (InEscape acc)
    with fin show ?thesis
      using js_space_step [OF assms(1)] by simp
  next
    case (InUnicode acc hs)
    with fin show ?thesis
      using js_space_step [OF assms(1)] by simp
  next
    case (InNumber acc)
    with fin show ?thesis
      using js_space_step(2) [OF assms(1)]
      by (simp add: js_space_step(1) [OF assms(1)] split: option.splits if_splits)
  next
    case (InLiteral acc)
    with fin show ?thesis
      using js_space_step(3) [OF assms(1)]
      by (simp add: js_space_step(1) [OF assms(1)] split: option.splits if_splits)
  next
    case LexFail
    with fin show ?thesis by simp
  qed
  then show ?thesis by (simp add: lex_def st)
qed


lemma lex_dropWhile:
  "lex s = Some toks \<Longrightarrow> lex (dropWhile is_js_space s) = Some toks"
  by (induction s) (auto dest: lex_drop_leading)

lemma lex_rev_dropWhile:
  "lex s = Some toks \<Longrightarrow> lex (rev (dropWhile is_js_space (rev s))) = Some toks"
  by (induction s rule: rev_induct) (auto dest: lex_drop_trailing)

lemma lex_trim: "lex s = Some toks \<Longrightarrow> lex (trim s) = Some toks"
  by (simp add: trim_def lex_dropWhile lex_rev_dropWhile)

lemma JSON_parse_trim:
  assumes "JSON_parse s = Some v"
  shows "JSON_parse (trim s) = Some v"
proof -
  from assms obtain toks where "lex s = Some toks" and "parse_tokens toks = Some v"
    by (auto simp add: JSON_parse_def split: option.splits)
  then show ?thesis by (simp add: JSON_parse_def lex_trim)
qed

lemma lex_all_space:
  "list_all is_js_space s \<Longrightarrow> lex s = Some toks \<Longrightarrow> toks = []"
proof (induction s)
  case Nil
  then show ?case by (simp add: lex_def)
next
  case (Cons c s)
  then show ?case by (auto dest: lex_drop_leading)
qed

lemma JSON_parse_all_space:
  assumes "list_all is_js_space s"
  shows "JSON_parse s = None"
proof (cases "lex s")
  case None
  then show ?thesis by (simp add: JSON_parse_def)
next
  case (Some toks)
  with assms have "toks = []" by (rule lex_all_space)
  with Some show ?thesis by (simp add: JSON_parse_def parse_tokens_def)
qed

lemma trim_padded:
  assumes "list_all is_js_space w1" and "list_all is_js_space w2"
    and "\<not> list_all is_js_space j"
  shows "trim (w1 @ j @ w2) = trim j"
proof -
  from assms(3) obtain x where x: "x \<in> set j" "\<not> is_js_space x"
    by (auto simp add: list_all_iff)
  have "dropWhile is_js_space (w1 @ j @ w2) = dropWhile is_js_space (j @ w2)"
    using assms(1) by (simp add: dropWhile_append2 list_all_iff)
  also have "\<dots> = dropWhile is_js_space j @ w2"
    using x by (simp add: dropWhile_append1)
  finally have "rev (dropWhile is_js_space (w1 @ j @ w2)) = rev w2 @ rev (dropWhile is_js_space j)"
    by simp
  moreover have "dropWhile is_js_space (rev w2 @ rev (dropWhile is_js_space j)) =
      dropWhile is_js_space (rev (dropWhile is_js_space j))"
    using assms(2) by (intro dropWhile_append2) (simp add: list_all_iff)
  ultimately show ?thesis by (simp add: trim_def)
qed

lemma foldl_InLiteral_j:
  "acc \<noteq> [] \<Longrightarrow> hd acc = CHR ''j'' \<Longrightarrow>
   lex_finish (foldl lex_step (InLiteral acc, toks) s) = None"
proof (induction s arbitrary: acc)
  case Nil
  then show ?case by (cases acc) (auto simp add: close_literal_def)
next
  case (Cons c s)
  show ?case
  proof (cases "is_letter c")
    case True
    with Cons.IH [of "acc @ [c]"] Cons.prems show ?thesis by simp
  next
    case False
    moreover from Cons.prems have "close_literal acc toks = None"
      by (cases acc) (auto simp add: close_literal_def)
    ultimately show ?thesis by (simp add: foldl_LexFail)
  qed
qed

lemma lex_Cons_j: "lex (CHR ''j'' # s) = None"
  by (simp add: lex_def between_step_def is_json_ws_def is_digit_def is_letter_def
      foldl_InLiteral_j)


lemma space_no_backtick_prefix:
  "list_all is_js_space w \<Longrightarrow> \<not> prefix (CHR 0x60 # p) w"
  by (cases w) (auto dest: js_space_step(9))

lemma hasFence_space: "list_all is_js_space w \<Longrightarrow> \<not> hasFence w"
  by (induction w) (auto dest: js_space_step(9))

lemma hasFence_space_append:
  "list_all is_js_space w \<Longrightarrow> hasFence (w @ s) = hasFence s"
  by (induction w) (auto dest: js_space_step(9))

lemma hasFence_append_space:
  assumes "list_all is_js_space w"
  shows "hasFence (s @ w) = hasFence s"
proof (induction s)
  case Nil
  from assms show ?case by (simp add: hasFence_space)
next
  case (Cons c cs)
  have pre: "prefix ''```'' (c # cs @ w) = prefix ''```'' (c # cs)"
  proof (cases cs)
    case Nil
    with assms show ?thesis by (simp add: space_no_backtick_prefix)
  next
    case (Cons d ds)
    note cs = this
    show ?thesis
    proof (cases ds)
      case Nil
      with cs assms show ?thesis by (simp add: space_no_backtick_prefix)
    next
      case (Cons e es)
      with cs show ?thesis by simp
    qed
  qed
  show ?case by (simp only: append_Cons hasFence.simps pre Cons.IH)
qed

lemma stripFences_closing: "\<not> hasFence a \<Longrightarrow> stripFences (a @ ''```'') = a"
proof (induction a)
  case Nil
  show ?case by simp
next
  case (Cons c cs)
  show ?case
  proof (cases cs)
    case Nil
    then show ?thesis by simp
  next
    case (Cons d ds)
    note cs = this
    show ?thesis
    proof (cases ds)
      case Nil
      with cs show ?thesis by simp
    next
      case (Cons e es)
      with cs Cons.prems Cons.IH show ?thesis by (auto split: if_splits)
    qed
  qed
qed

lemma stripFences_opening_json: "stripFences (''```json'' @ r) = stripFences r"
  by simp

lemma stripFences_opening_plain:
  "\<not> prefix ''j'' r \<Longrightarrow> stripFences (''```'' @ r) = stripFences r"
  by (cases r) simp_all


lemma JSON_parse_Cons_backtick: "JSON_parse (CHR 0x60 # s) = None"
  by (simp add: JSON_parse_def lex_Cons_backtick)

lemma JSON_parse_Cons_j: "JSON_parse (CHR ''j'' # s) = None"
  by (simp add: JSON_parse_def lex_Cons_j)

lemma space_not_j: "is_js_space c \<Longrightarrow> c \<noteq> CHR ''j''"
  by (auto dest: js_space_step(3) simp add: is_letter_def)

lemma stripFences_fenced:
  assumes fence: "fence = ''```json'' \<or> fence = ''```''"
    and w1: "list_all is_js_space w1" and w2: "list_all is_js_space w2"
    and j: "JSON_parse j = Some v" and nofence: "\<not> hasFence j"
  shows "stripFences (fence @ w1 @ j @ w2 @ ''```'') = w1 @ j @ w2"
proof -
  have "\<not> hasFence (w1 @ j @ w2)"
    using nofence w1 w2 hasFence_append_space [of w2 "w1 @ j"]
    by (simp add: hasFence_space_append)
  then have closing: "stripFences ((w1 @ j @ w2) @ ''```'') = w1 @ j @ w2"
    by (rule stripFences_closing)
  have "\<not> prefix ''j'' (w1 @ j @ w2 @ ''```'')"
  proof (cases w1)
    case Nil
    show ?thesis
    proof (cases j)
      case Nil
      with j show ?thesis by (simp add: JSON_parse_all_space)
    next
      case (Cons c cs)
      with j have "c \<noteq> CHR ''j''" by (auto simp add: JSON_parse_Cons_j)
      with Cons \<open>w1 = []\<close> show ?thesis by simp
    qed
  next
    case (Cons c cs)
    with w1 have "c \<noteq> CHR ''j''" by (simp add: space_not_j)
    with Cons show ?thesis by simp
  qed
  then have "stripFences (fence @ w1 @ j @ w2 @ ''```'') = stripFences (w1 @ j @ w2 @ ''```'')"
    using fence stripFences_opening_json [of "w1 @ j @ w2 @ ''```''"]
      stripFences_opening_plain [of "w1 @ j @ w2 @ ''```''"]
    by auto
  with closing show ?thesis by simp
qed

lemma sanitizeJSON_fenced:
  assumes fence: "fence = ''```json'' \<or> fence = ''```''"
    and w1: "list_all is_js_space w1" and w2: "list_all is_js_space w2"
    and j: "JSON_parse j = Some v" and nofence: "\<not> hasFence j"
  shows "sanitizeJSON (fence @ w1 @ j @ w2 @ ''```'') = Some v"
proof -
  let ?raw = "fence @ w1 @ j @ w2 @ ''```''"
  from fence have direct: "JSON_parse ?raw = None"
    by (auto simp add: JSON_parse_Cons_backtick)
  from j have "\<not> list_all is_js_space j"
    by (auto simp add: JSON_parse_all_space)
  with w1 w2 have "trim (w1 @ j @ w2) = trim j"
    by (rule trim_padded)
  then have "trim (stripFences ?raw) = trim j"
    by (simp add: stripFences_fenced [OF assms])
  moreover from j have "JSON_parse (trim j) = Some v"
    by (rule JSON_parse_trim)
  ultimately show ?thesis
    using direct by (simp add: sanitizeJSON_def)
qed

text \<open>
  C3 (as amended). Take a completion made of an opening fence (\<open>```json\<close> or
  \<open>```\<close>), any white space, a valid JSON text in which no three backticks occur in
  a row, any white space and a closing fence. The handler returns status 200 with
  exactly the value the JSON text denotes: parsing the text as received fails, and
  stripping and trimming leave a text that parses to the same value.
\<close>

theorem fenced_json_parsed:
  assumes "OPENAI_API_KEY env = Some key" and "key \<noteq> []"
    and "provider (chatRequest fmt key env payload) =
           OkContent (Some (fence @ w1 @ j @ w2 @ ''```''))"
    and "fence = ''```json'' \<or> fence = ''```''"
    and "list_all is_js_space w1" and "list_all is_js_space w2"
    and "JSON_parse j = Some v"
    and "\<not> hasFence j"
  shows "POST fmt env provider (Body payload) =
           \<lparr> outcome = Returned \<lparr> status = 200, body = JsonBody v \<rparr>,
             calls = [chatRequest fmt key env payload], logged = [] \<rparr> \<and>
         sanitizeJSON (fence @ w1 @ j @ w2 @ ''```'') = JSON_parse j"
  using assms sanitizeJSON_fenced [of fence w1 w2 j v]
  by (simp add: POST_respond respond_def)

lemma sample_json: \<open>JSON_parse ''{"hook":"Hi!","storyline":[]}'' =
    Some (JObject [(code_units ''hook'', JString (code_units ''Hi!'')),
                   (code_units ''storyline'', JArray [])])\<close>
  by code_simp

lemma sample_json_no_fence: \<open>\<not> hasFence ''{"hook":"Hi!","storyline":[]}''\<close>
  by simp

theorem fenced_json_parsed_witness:
  \<open>outcome
     (POST sampleFmt sampleEnv
        (replyWith (OkContent (Some (''```json'' @ ''\<newline>'' @
           ''{"hook":"Hi!","storyline":[]}'' @ ''\<newline>'' @ ''```''))))
        (Body sampleBrief)) =
   Returned \<lparr> status = 200,
     body = JsonBody (JObject [(code_units ''hook'', JString (code_units ''Hi!'')),
                               (code_units ''storyline'', JArray [])]) \<rparr>\<close>
  using fenced_json_parsed [of sampleEnv "''sk-test''"
      \<open>replyWith (OkContent (Some (''```json'' @ ''\<newline>'' @
           ''{"hook":"Hi!","storyline":[]}'' @ ''\<newline>'' @ ''```'')))\<close>
      sampleFmt sampleBrief "''```json''" "''\<newline>''" \<open>''{"hook":"Hi!","storyline":[]}''\<close>
      "''\<newline>''"
      \<open>JObject [(code_units ''hook'', JString (code_units ''Hi!'')),
                (code_units ''storyline'', JArray [])]\<close>]
    sample_json sample_json_no_fence
  by (simp add: sampleEnv_def replyWith_def is_js_space_def)

text \<open>
  C3 as stated fails: the stripping also removes three backticks inside a string of
  the payload, and the handler then returns a value other than the one the payload
  denotes.
\<close>

lemma fence_inside_direct: \<open>JSON_parse ''{"script":"```"}'' =
    Some (JObject [(code_units ''script'', JString (code_units ''```''))])\<close>
  by code_simp

lemma fence_inside_sanitized:
  \<open>sanitizeJSON (''```json'' @ ''\<newline>'' @ ''{"script":"```"}'' @ ''\<newline>'' @ ''```'') =
    Some (JObject [(code_units ''script'', JString [])])\<close>
  by code_simp

theorem fence_inside_string_counterexample:
  \<open>JSON_parse ''{"script":"```"}'' =
     Some (JObject [(code_units ''script'', JString (code_units ''```''))]) \<and>
   outcome
     (POST sampleFmt sampleEnv
        (replyWith (OkContent (Some (''```json'' @ ''\<newline>'' @ ''{"script":"```"}'' @
           ''\<newline>'' @ ''```''))))
        (Body sampleBrief)) =
     Returned \<lparr> status = 200, body = JsonBody (JObject [(code_units ''script'', JString [])]) \<rparr> \<and>
   JObject [(code_units ''script'', JString [])] \<noteq>
     JObject [(code_units ''script'', JString (code_units ''```''))]\<close>
proof -
  have \<open>POST sampleFmt sampleEnv
          (replyWith (OkContent (Some (''```json'' @ ''\<newline>'' @ ''{"script":"```"}'' @
             ''\<newline>'' @ ''```''))))
          (Body sampleBrief) =
        respond (OkContent (Some (''```json'' @ ''\<newline>'' @ ''{"script":"```"}'' @
             ''\<newline>'' @ ''```'')))
          (chatRequest sampleFmt ''sk-test'' sampleEnv sampleBrief)\<close>
    by (subst POST_respond [of sampleEnv "''sk-test''"]) (simp_all add: sampleEnv_def replyWith_def)
  then show ?thesis
    using fence_inside_direct fence_inside_sanitized
    by (simp add: respond_def code_units_def)
qed

end
